theory Spec2Isabelle
  imports Main "HOL-Library.Word"
begin

section \<open>Values shared by the packages feed and ipfs\<close>

type_synonym byte = "8 word"
type_synonym bytes = "byte list"

text \<open>
  A Go \<open>error\<close> value. \<open>Failure\<close> is an error made by a collaborator, \<open>Errorf\<close> is
  \<open>fmt.Errorf\<close> around a cause, \<open>EOF\<close> is \<open>io.EOF\<close> and \<open>ErrNoPublicKey\<close> is
  \<open>peer.ErrNoPublicKey\<close>. A Go result pair
  \<open>(v, err)\<close> whose two halves the code reads independently is a pair with an
  \<open>error option\<close> (\<open>None\<close> is \<open>nil\<close>); a call whose value is only used when
  \<open>err == nil\<close> is a sum, \<open>Inl\<close> the error.
\<close>

datatype error = EOF | ErrNoPublicKey | Failure string | Errorf string error

definition bytes_of_string :: "string \<Rightarrow> bytes" where
  "bytes_of_string s = map (\<lambda>c. of_nat (of_char c)) s"

section \<open>feed: users\<close>

record User =
  Did :: string
  NostrPrivKey :: bytes
  NostrPubkey :: bytes
  IPNSPrivKey :: bytes
  IPNSPubKey :: bytes

text \<open>The zero value \<open>User{}\<close>.\<close>

definition User_zero :: User where
  "User_zero = \<lparr>Did = [], NostrPrivKey = [], NostrPubkey = [], IPNSPrivKey = [], IPNSPubKey = []\<rparr>"

text \<open>
  The file system seen by \<open>os.Stat\<close> and \<open>os.ReadFile\<close>: a path is absent, a regular
  file with its contents, or an entry that exists and cannot be read.
\<close>

datatype fsentry = Regular bytes | Unreadable error

type_synonym filesystem = "string \<rightharpoonup> fsentry"

definition os_Stat :: "filesystem \<Rightarrow> string \<Rightarrow> error option" where
  "os_Stat fs file =
     (case fs file of
        None \<Rightarrow> Some (Failure ''no such file or directory'')
      | Some _ \<Rightarrow> None)"

definition os_ReadFile :: "filesystem \<Rightarrow> string \<Rightarrow> bytes \<times> error option" where
  "os_ReadFile fs file =
     (case fs file of
        None \<Rightarrow> ([], Some (Failure ''no such file or directory''))
      | Some (Regular u) \<Rightarrow> (u, None)
      | Some (Unreadable e) \<Rightarrow> ([], Some e))"

text \<open>
  \<open>LoadUser\<close>. \<open>json_Unmarshal\<close> stands for \<open>encoding/json\<close>: from the bytes and the
  value to fill it gives the filled value and the error. The variable \<open>err\<close> of the
  source is the one assigned by \<open>os.ReadFile\<close>; the result of \<open>json.Unmarshal\<close> is only
  compared with \<open>nil\<close> and never stored.
\<close>

definition LoadUser ::
  "(bytes \<Rightarrow> User \<Rightarrow> User \<times> error option) \<Rightarrow> filesystem \<Rightarrow> string \<Rightarrow> User \<times> error option" where
  "LoadUser json_Unmarshal fs file =
     (let err = os_Stat fs file in
      if err \<noteq> None then (User_zero, err)
      else
        let (u, err) = os_ReadFile fs file in
        if err \<noteq> None then (User_zero, err)
        else
          let (user, unmarshalled) = json_Unmarshal u User_zero in
          if unmarshalled \<noteq> None then (User_zero, err)
          else (user, None))"

text \<open>
  A decoder that rejects the empty input, as \<open>encoding/json\<close> does
  (unexpected end of JSON input), and leaves the value alone otherwise.
\<close>

definition json_rejects_empty :: "bytes \<Rightarrow> User \<Rightarrow> User \<times> error option" where
  "json_rejects_empty u user =
     (if u = [] then (user, Some (Failure ''unexpected end of JSON input'')) else (user, None))"

section \<open>ipfs: content identifiers, blocks, nodes and records\<close>

text \<open>\<open>cid.Prefix\<close>: three \<open>uint64\<close> fields and an \<open>int\<close>.\<close>

record Prefix =
  Version :: "64 word"
  Codec :: "64 word"
  MhType :: "64 word"
  MhLength :: int

text \<open>A CID is undefined (\<open>cid.Undef\<close>) or carries its prefix and its digest.\<close>

datatype Cid = Undef | Cid Prefix bytes

text \<open>The multicodec table entries named by the source: \<open>cid.DagJSON\<close> and \<open>mh.SHA3_384\<close>.\<close>

definition DagJSON :: "64 word" where
  "DagJSON = 0x0129"

definition SHA3_384 :: "64 word" where
  "SHA3_384 = 0x15"

text \<open>
  The entries \<open>cid.Prefix.Sum\<close> itself names: \<open>mh.IDENTITY\<close>, \<open>mh.SHA2_256\<close> and
  \<open>cid.DagProtobuf\<close>.
\<close>

definition IDENTITY :: "64 word" where
  "IDENTITY = 0x00"

definition SHA2_256 :: "64 word" where
  "SHA2_256 = 0x12"

definition DagProtobuf :: "64 word" where
  "DagProtobuf = 0x70"

record Block =
  RawData :: bytes
  BlockCid :: Cid

datatype Node = NString string | NInt int | NMap "(string \<times> Node) list"

record LegacyNode =
  LegacyBlock :: Block
  LegacyDag :: Node

text \<open>
  An \<open>io.Reader\<close> as \<open>io.ReadAll\<close> sees it: the bytes it delivers and the error that
  ends the stream (\<open>None\<close> for a clean end).
\<close>

datatype Reader = Reader bytes "error option"

definition io_ReadAll :: "Reader \<Rightarrow> bytes \<times> error option" where
  "io_ReadAll r = (case r of Reader buf err \<Rightarrow> (buf, err))"

text \<open>A link (\<open>datamodel.Link\<close>) is carried as \<open>lnk.Binary()\<close>.\<close>

type_synonym Link = bytes

text \<open>The IPNS record (\<open>ipns_pb.IpnsEntry\<close>); the sequence number is a \<open>uint64\<close>.\<close>

record IpnsEntry =
  Value :: bytes
  Sequence :: "64 word"
  Validity :: int
  Ttl :: "64 word"
  Signature :: bytes
  pubKey :: bytes

text \<open>A call panics or returns.\<close>

datatype 'a outcome = Panic | Return 'a

section \<open>The node, the remote service and the collaborators\<close>

text \<open>
  The effects a publish operation leaves behind, in the order they happen: the node
  came up, the node was closed, a block was added to the local DAG and pinned, a name
  record was announced by the local node, an archive was uploaded to the remote
  service, a name record was stored by the remote service under a name.
\<close>

datatype event =
    NodeStarted
  | NodeShutdown
  | Pinned Cid
  | PublishedDHT Cid
  | Archived Cid
  | NamePut string IpnsEntry

text \<open>
  What the handles of \<open>IPFSCore\<close> reach: the block store behind \<open>store.Api\<close>, the
  name records kept by the remote service behind the \<open>w3s.Client\<close>, and the history
  of effects. With them, the one piece of process-wide state the publish operation
  touches: the names of the types that the type system of package \<open>bindnode\<close> has
  inferred and holds.
\<close>

record world =
  blocks :: "Cid \<rightharpoonup> Reader"
  w3s_names :: "string \<rightharpoonup> IpnsEntry"
  bindnode_types :: "string list"
  trace :: "event list"

text \<open>
  The configuration (\<open>node.CurrentConfig\<close>) and the libraries and services the two
  packages call. Each field gives what the call returns for its arguments; keys and
  peer identities are carried in their marshalled form.
\<close>

record env =
  cfg_Did :: string
  cfg_InfuraSecretKey :: string
  cfg_IPFSPrivKey :: bytes
  cfg_IPFSPubKey :: bytes
  cfg_W3SSecretKey :: string
  initialized :: bool
  did_Parse :: "string \<Rightarrow> error + string"
  ResolveENS :: "string \<Rightarrow> string \<Rightarrow> error + string"
  NewNode :: "bytes \<Rightarrow> bytes \<Rightarrow> error option"
  NewCoreAPI :: "error option"
  dagjson_Encode :: "Node \<Rightarrow> error + bytes"
  mh_Sum :: "bytes \<Rightarrow> 64 word \<Rightarrow> int \<Rightarrow> error + bytes"
  hash_check :: "bytes \<Rightarrow> Cid \<Rightarrow> error option"
  Dag_Pinning_Add :: "Block \<Rightarrow> error option"
  Name_Publish :: "Cid \<Rightarrow> error option"
  W3S_PutCar :: "string \<Rightarrow> Cid \<Rightarrow> error + Cid"
  CidFromBytes :: "bytes \<Rightarrow> error + Cid"
  Cid_String :: "Cid \<Rightarrow> string"
  decoder :: "Cid \<Rightarrow> bytes \<Rightarrow> error + Node"
  UnmarshalPublicKey :: "bytes \<Rightarrow> error + bytes"
  IDFromPublicKey :: "bytes \<Rightarrow> error + string"
  ExtractPublicKey :: "string \<Rightarrow> error option"
  StringOfBase36 :: "string \<Rightarrow> error + string"
  UnmarshalPrivateKey :: "bytes \<Rightarrow> error + bytes"
  MarshalPublicKey :: "bytes \<Rightarrow> error + bytes"
  w3s_NewClient :: "string \<Rightarrow> error option"
  GetName_transport :: "string \<Rightarrow> error option"
  PutName_transport :: "string \<Rightarrow> error option"
  now :: int
  ipns_Sign :: "bytes \<Rightarrow> bytes \<Rightarrow> 64 word \<Rightarrow> int \<Rightarrow> error + bytes"
  LS_Store :: "Prefix \<Rightarrow> Node \<Rightarrow> Link option \<times> error option"

section \<open>ipfs: the local store adapter and the link system\<close>

text \<open>
  \<open>store.Api.Block().Stat\<close> and \<open>store.Api.Block().Get\<close> on the block store: both
  fail exactly when no block is stored under the CID; \<open>Stat\<close> answers from the
  presence of the entry alone.
\<close>

definition Block_Stat :: "world \<Rightarrow> Cid \<Rightarrow> error option" where
  "Block_Stat store c =
     (if c \<in> dom (blocks store) then None else Some (Failure ''block not found''))"

definition Block_Get :: "world \<Rightarrow> Cid \<Rightarrow> error + Reader" where
  "Block_Get store c =
     (case blocks store c of
        None \<Rightarrow> Inl (Failure ''block not found'')
      | Some r \<Rightarrow> Inr r)"

text \<open>
  \<open>cid.Prefix.Sum\<close>. The identity hash is asked for its default length (\<open>-1\<close>); a
  version 0 prefix is refused unless it is SHA2-256 with length 32 or the default;
  the multihash of the data is computed; version 0 gives the CID of \<open>NewCidV0\<close>,
  whose prefix is DAG-Protobuf with SHA2-256 and length 32, version 1 gives the CID
  of \<open>NewCidV1\<close> with the codec of the prefix, whose length is that of the digest
  when the default was asked for; there is no other version.
\<close>

definition Prefix_Sum :: "env \<Rightarrow> Prefix \<Rightarrow> bytes \<Rightarrow> error + Cid" where
  "Prefix_Sum env p data =
     (let len = (if MhType p = IDENTITY then - 1 else MhLength p) in
      if Version p = 0 \<and> (MhType p \<noteq> SHA2_256 \<or> (MhLength p \<noteq> 32 \<and> MhLength p \<noteq> - 1))
      then Inl (Failure ''invalid v0 prefix'')
      else
        (case mh_Sum env data (MhType p) len of
           Inl err \<Rightarrow> Inl err
         | Inr hash \<Rightarrow>
             if Version p = 0
             then Inr (Cid \<lparr>Version = 0, Codec = DagProtobuf, MhType = SHA2_256, MhLength = 32\<rparr> hash)
             else if Version p = 1
             then Inr (Cid (p\<lparr>MhLength := (if len = - 1 then int (length hash) else MhLength p)\<rparr>) hash)
             else Inl (Failure ''invalid cid version'')))"

text \<open>
  \<open>blocks.NewBlockWithCid\<close>: the block, unless the hash check of the debug mode
  (\<open>hash_check\<close>, \<open>None\<close> when it is off or passes) rejects the pair.
\<close>

definition NewBlockWithCid :: "env \<Rightarrow> bytes \<Rightarrow> Cid \<Rightarrow> Block option \<times> error option" where
  "NewBlockWithCid env buf c =
     (case hash_check env buf c of
        Some err \<Rightarrow> (None, Some err)
      | None \<Rightarrow> (Some \<lparr>RawData = buf, BlockCid = c\<rparr>, None))"

text \<open>
  \<open>ipldlegacy.DecodeNode\<close>: it reads the CID of the block it is given (a nil block
  panics there), and returns a nil node with the error when the bytes do not decode.
\<close>

definition DecodeNode :: "env \<Rightarrow> Block option \<Rightarrow> (LegacyNode option \<times> error option) outcome" where
  "DecodeNode env b =
     (case b of
        None \<Rightarrow> Panic
      | Some blk \<Rightarrow>
          (case decoder env (BlockCid blk) (RawData blk) of
             Inl err \<Rightarrow> Return (None, Some err)
           | Inr nd \<Rightarrow> Return (Some \<lparr>LegacyBlock = blk, LegacyDag = nd\<rparr>, None)))"

text \<open>\<open>IPFSCore.Has\<close>: the boolean returned is \<open>err != nil\<close>.\<close>

definition Has :: "env \<Rightarrow> world \<Rightarrow> bytes \<Rightarrow> bool \<times> error option" where
  "Has env store key =
     (case CidFromBytes env key of
        Inl err \<Rightarrow> (False, Some err)
      | Inr c \<Rightarrow>
          (let err = Block_Stat store c in
           (err \<noteq> None, err)))"

text \<open>
  \<open>IPFSCore.Get\<close>: the errors of \<open>io.ReadAll\<close> and \<open>blocks.NewBlockWithCid\<close> are
  dropped, and \<open>ul.RawData()\<close> is called on whatever \<open>DecodeNode\<close> returned: on the
  nil node it is a nil dereference.
\<close>

definition Get :: "env \<Rightarrow> world \<Rightarrow> bytes \<Rightarrow> (bytes \<times> error option) outcome" where
  "Get env store key =
     (case CidFromBytes env key of
        Inl err \<Rightarrow> Return ([], Some err)
      | Inr k \<Rightarrow>
          (case Block_Get store k of
             Inl err \<Rightarrow> Return ([], Some err)
           | Inr r \<Rightarrow>
               (let (buf, _) = io_ReadAll r;
                    (b, _) = NewBlockWithCid env buf k
                in case DecodeNode env b of
                     Panic \<Rightarrow> Panic
                   | Return (ul, err) \<Rightarrow>
                       (case ul of
                          None \<Rightarrow> Panic
                        | Some n \<Rightarrow> Return (RawData (LegacyBlock n), err)))))"

text \<open>\<open>IPFSCore.OpenRead\<close>: as \<open>Get\<close>, the bytes wrapped in a reader.\<close>

definition OpenRead :: "env \<Rightarrow> world \<Rightarrow> Link \<Rightarrow> (Reader option \<times> error option) outcome" where
  "OpenRead env store lnk =
     (case CidFromBytes env lnk of
        Inl err \<Rightarrow> Return (None, Some err)
      | Inr k \<Rightarrow>
          (case Block_Get store k of
             Inl err \<Rightarrow> Return (None, Some err)
           | Inr r \<Rightarrow>
               (let (buf, _) = io_ReadAll r;
                    (b, _) = NewBlockWithCid env buf k
                in case DecodeNode env b of
                     Panic \<Rightarrow> Panic
                   | Return (ul, err) \<Rightarrow>
                       (case ul of
                          None \<Rightarrow> Panic
                        | Some n \<Rightarrow> Return (Some (Reader (RawData (LegacyBlock n)) None), err)))))"

text \<open>
  \<open>bytes.Buffer\<close>, as the bytes written and not yet read. \<open>Buffer.Read\<close> copies from
  the buffer into the slice it is given and consumes what it copied; on an empty
  buffer it returns \<open>io.EOF\<close>, or nil for an empty slice.
\<close>

type_synonym Buffer = bytes

definition Buffer_Read :: "Buffer \<Rightarrow> bytes \<Rightarrow> Buffer \<times> bytes \<times> nat \<times> error option" where
  "Buffer_Read b p =
     (if b = [] then (if p = [] then ([], p, 0, None) else ([], p, 0, Some EOF))
      else
        let n = min (length p) (length b) in
        (drop n b, take n b @ drop n p, n, None))"

definition Buffer_Bytes :: "Buffer \<Rightarrow> bytes" where
  "Buffer_Bytes b = b"

text \<open>
  \<open>IPFSLinkWriter\<close>: the CID it was opened for and its buffer (the context, the API
  handle, the client and the logger are handles onto the world).
\<close>

record IPFSLinkWriter =
  w_cid :: Cid
  w_data :: Buffer

text \<open>
  \<open>IPFSLinkWriter.Write\<close> calls \<open>w.data.Read(d)\<close>: the result is the writer, the
  caller's slice after the call, and the pair \<open>(n, err)\<close>.
\<close>

definition Write :: "IPFSLinkWriter \<Rightarrow> bytes \<Rightarrow> IPFSLinkWriter \<times> bytes \<times> nat \<times> error option" where
  "Write w d =
     (case Buffer_Read (w_data w) d of
        (b, d', n, err) \<Rightarrow> (w\<lparr>w_data := b\<rparr>, d', n, err))"

definition OpenWrite :: "env \<Rightarrow> world \<Rightarrow> Link \<Rightarrow> IPFSLinkWriter option \<times> error option" where
  "OpenWrite env store lnk =
     (case CidFromBytes env lnk of
        Inl err \<Rightarrow> (None, Some err)
      | Inr k \<Rightarrow> (Some \<lparr>w_cid = k, w_data = []\<rparr>, None))"

text \<open>
  \<open>IPFSLinkWriter.BlockWriteCommit\<close>: the whole body is commented out in the source;
  what is left is \<open>return nil\<close>.
\<close>

definition BlockWriteCommit :: "world \<Rightarrow> IPFSLinkWriter \<Rightarrow> Link \<Rightarrow> world \<times> error option" where
  "BlockWriteCommit store w lnk = (store, None)"

section \<open>ipfs: node lifecycle\<close>

text \<open>\<open>GetIPFSNodeIdentity\<close> panics where \<open>GetIPNSPublicKeyName\<close> returns the error.\<close>

definition GetIPFSNodeIdentity :: "env \<Rightarrow> bytes \<Rightarrow> string outcome" where
  "GetIPFSNodeIdentity env pubb =
     (case UnmarshalPublicKey env pubb of
        Inl err \<Rightarrow> Panic
      | Inr pub \<Rightarrow>
          (case IDFromPublicKey env pub of
             Inl err \<Rightarrow> Panic
           | Inr ident \<Rightarrow> Return ident))"

definition GetIPNSPublicKeyName :: "env \<Rightarrow> bytes \<Rightarrow> error + string" where
  "GetIPNSPublicKeyName env pubb =
     (case UnmarshalPublicKey env pubb of
        Inl err \<Rightarrow> Inl err
      | Inr pub \<Rightarrow>
          (case IDFromPublicKey env pub of
             Inl err \<Rightarrow> Inl err
           | Inr pid \<Rightarrow> StringOfBase36 env pid))"

text \<open>
  \<open>StartIPFSNode\<close>. The node is up once \<open>ipfsCore.NewNode\<close> has returned it. The
  subscription to the topic and the first message on it change nothing the world
  records, and the source drops their errors. The shutdown function is the closure
  the source builds: it closes the node.
\<close>

definition StartIPFSNode :: "env \<Rightarrow> world \<Rightarrow> bytes \<Rightarrow> bytes \<Rightarrow> world \<times> error option outcome" where
  "StartIPFSNode env w privkey pubkey =
     (case GetIPFSNodeIdentity env pubkey of
        Panic \<Rightarrow> (w, Panic)
      | Return ident \<Rightarrow>
          (case NewNode env privkey pubkey of
             Some err \<Rightarrow> (w, Return (Some err))
           | None \<Rightarrow>
               (let w = w\<lparr>trace := trace w @ [NodeStarted]\<rparr> in
                case NewCoreAPI env of
                  Some e \<Rightarrow> (w, Return (Some e))
                | None \<Rightarrow>
                    (case w3s_NewClient env ''none'' of
                       Some err \<Rightarrow> (w, Return (Some err))
                     | None \<Rightarrow> (w, Return None)))))"

definition ipfsShutdown :: "world \<Rightarrow> world" where
  "ipfsShutdown w = w\<lparr>trace := trace w @ [NodeShutdown]\<rparr>"

section \<open>ipfs: pinning, archival and name records\<close>

text \<open>\<open>Dag().Pinning().Add\<close>: on success the block is in the local store, pinned.\<close>

definition Pinning_Add :: "env \<Rightarrow> world \<Rightarrow> LegacyNode \<Rightarrow> world \<times> error option" where
  "Pinning_Add env w n =
     (let b = LegacyBlock n in
      case Dag_Pinning_Add env b of
        Some err \<Rightarrow> (w, Some err)
      | None \<Rightarrow>
          (w\<lparr>blocks := (blocks w)(BlockCid b \<mapsto> Reader (RawData b) None),
             trace := trace w @ [Pinned (BlockCid b)]\<rparr>, None))"

text \<open>\<open>PublishIPNSRecordForDAGNode\<close>: the record goes out through the local node.\<close>

definition PublishIPNSRecordForDAGNode :: "env \<Rightarrow> world \<Rightarrow> Cid \<Rightarrow> string \<Rightarrow> world \<times> error option" where
  "PublishIPNSRecordForDAGNode env w c keyname =
     (case Name_Publish env c of
        Some err \<Rightarrow>
          (w, Some (Errorf (''error publishing IPNS record using IPFS node key '' @ keyname) err))
      | None \<Rightarrow> (w\<lparr>trace := trace w @ [PublishedDHT c]\<rparr>, None))"

text \<open>
  Modelled from the spec: \<open>PutIPFSDAGBlockToW3S\<close> is called by \<open>CreateProfile\<close> and is
  not among the sources. The remote archival adapter is \<open>put(block) -> (remote-id,
  error)\<close>: it serialises the block as a content archive and uploads it to the
  remote service, keyed by an authentication token.
\<close>

definition PutIPFSDAGBlockToW3S :: "env \<Rightarrow> world \<Rightarrow> string \<Rightarrow> Block \<Rightarrow> world \<times> Cid \<times> error option" where
  "PutIPFSDAGBlockToW3S env w authToken block =
     (case w3s_NewClient env authToken of
        Some err \<Rightarrow> (w, Undef, Some err)
      | None \<Rightarrow>
          (case W3S_PutCar env authToken (BlockCid block) of
             Inl err \<Rightarrow> (w, Undef, Some err)
           | Inr pcid \<Rightarrow> (w\<lparr>trace := trace w @ [Archived (BlockCid block)]\<rparr>, pcid, None)))"

text \<open>
  Modelled from the spec: \<open>GetName\<close> of the client of the remote service (package
  \<open>w3s\<close>) is not among the sources. \<open>get-name(name) -> record\<close> returns the record
  stored under the name; it fails when the transport fails and when no record is
  stored.
\<close>

definition w3s_GetName :: "env \<Rightarrow> world \<Rightarrow> string \<Rightarrow> IpnsEntry option \<times> error option" where
  "w3s_GetName env w name =
     (case GetName_transport env name of
        Some err \<Rightarrow> (None, Some err)
      | None \<Rightarrow>
          (case w3s_names w name of
             None \<Rightarrow> (None, Some (Failure ''name not found''))
           | Some r \<Rightarrow> (Some r, None)))"

text \<open>
  Modelled from the spec: \<open>PutName\<close> of the same client is not among the sources.
  \<open>put-name(record, name) -> error\<close> stores the record under the name unless the
  transport fails.
\<close>

definition w3s_PutName :: "env \<Rightarrow> world \<Rightarrow> IpnsEntry \<Rightarrow> string \<Rightarrow> world \<times> error option" where
  "w3s_PutName env w nr name =
     (case PutName_transport env name of
        Some err \<Rightarrow> (w, Some err)
      | None \<Rightarrow>
          (w\<lparr>w3s_names := (w3s_names w)(name \<mapsto> nr),
             trace := trace w @ [NamePut name nr]\<rparr>, None))"

text \<open>
  \<open>ipns.Create\<close> signs the record. \<open>ipns.EmbedPublicKey\<close> derives the peer identity
  of the key and tries to extract the key from it: when that succeeds the record is
  left as it is, when it fails with an error other than \<open>peer.ErrNoPublicKey\<close> that
  error is returned, and otherwise the marshalled key is stored in the record.
\<close>

definition ipns_Create ::
  "env \<Rightarrow> bytes \<Rightarrow> bytes \<Rightarrow> 64 word \<Rightarrow> int \<Rightarrow> 64 word \<Rightarrow> error + IpnsEntry" where
  "ipns_Create env sk val seq eol ttl =
     (case ipns_Sign env sk val seq eol of
        Inl err \<Rightarrow> Inl err
      | Inr sig \<Rightarrow>
          Inr \<lparr>Value = val, Sequence = seq, Validity = eol, Ttl = ttl, Signature = sig, pubKey = []\<rparr>)"

definition ipns_EmbedPublicKey :: "env \<Rightarrow> bytes \<Rightarrow> IpnsEntry \<Rightarrow> error + IpnsEntry" where
  "ipns_EmbedPublicKey env pk nr =
     (case IDFromPublicKey env pk of
        Inl err \<Rightarrow> Inl err
      | Inr ident \<Rightarrow>
          (case ExtractPublicKey env ident of
             None \<Rightarrow> Inr nr
           | Some err \<Rightarrow>
               if err \<noteq> ErrNoPublicKey then Inl err
               else
                 (case MarshalPublicKey env pk of
                    Inl err \<Rightarrow> Inl err
                  | Inr b \<Rightarrow> Inr (nr\<lparr>pubKey := b\<rparr>))))"

text \<open>\<open>time.Hour\<close>, in nanoseconds, and \<open>ipfspath.IpfsPath(cid).String()\<close>.\<close>

definition Hour :: int where
  "Hour = 3600000000000"

definition IpfsPath_String :: "env \<Rightarrow> Cid \<Rightarrow> string" where
  "IpfsPath_String env c = ''/ipfs/'' @ Cid_String env c"

text \<open>
  \<open>PublishIPNSRecordForDAGNodeToW3S\<close>. The sequence number is a \<open>uint64\<close> that starts
  at 1; the lookup is \<open>c.GetName(ctx, p)\<close>, with the path \<open>p\<close> of the CID, and the
  record is stored with \<open>c.PutName(ctx, nr, name)\<close>.
\<close>

definition PublishIPNSRecordForDAGNodeToW3S ::
  "env \<Rightarrow> world \<Rightarrow> string \<Rightarrow> Cid \<Rightarrow> bytes \<Rightarrow> bytes \<Rightarrow> world \<times> error option" where
  "PublishIPNSRecordForDAGNodeToW3S env w authToken c privkey pubkey =
     (case GetIPNSPublicKeyName env pubkey of
        Inl err \<Rightarrow> (w, Some err)
      | Inr name \<Rightarrow>
          (let p = IpfsPath_String env c in
           case w3s_NewClient env authToken of
             Some err \<Rightarrow> (w, Some err)
           | None \<Rightarrow>
               (case UnmarshalPrivateKey env privkey of
                  Inl err \<Rightarrow> (w, Some err)
                | Inr sk \<Rightarrow>
                    (let seq = (case w3s_GetName env w p of
                                  (Some r, None) \<Rightarrow> Sequence r + 1
                                | _ \<Rightarrow> 1)
                     in case ipns_Create env sk (bytes_of_string p) seq (now env + Hour * 48) 0 of
                          Inl err \<Rightarrow> (w, Some err)
                        | Inr nr \<Rightarrow>
                            (case UnmarshalPublicKey env pubkey of
                               Inl err \<Rightarrow> (w, Some err)
                             | Inr pk \<Rightarrow>
                                 (case ipns_EmbedPublicKey env pk nr of
                                    Inl err \<Rightarrow> (w, Some err)
                                  | Inr nr' \<Rightarrow> w3s_PutName env w nr' name))))))"

section \<open>feed: publishing a profile\<close>

record Profile =
  ProfileDid :: string

text \<open>
  \<open>bindnode.Wrap(&profile, nil)\<close>. With no schema given, the schema of the Go type
  is inferred and the struct type is added under its name, \<open>Profile\<close>, to the
  process-wide type system, which panics on a name it already holds. Otherwise the
  profile is a node with its one field.
\<close>

definition bindnode_Wrap :: "world \<Rightarrow> Profile \<Rightarrow> (world \<times> Node) outcome" where
  "bindnode_Wrap w profile =
     (if ''Profile'' \<in> set (bindnode_types w) then Panic
      else Return (w\<lparr>bindnode_types := bindnode_types w @ [''Profile'']\<rparr>,
                   NMap [(''Did'', NString (ProfileDid profile))]))"

text \<open>
  \<open>CreateProfile\<close>. The call of \<open>PublishIPNSRecordForDAGNode\<close> is a statement of its
  own in the source: what it returns is not assigned. That call passes no key name.
  The function has no \<open>defer\<close>: a panic leaves it at once.
\<close>

definition CreateProfile :: "env \<Rightarrow> world \<Rightarrow> world \<times> error option outcome" where
  "CreateProfile env w =
     (case did_Parse env (cfg_Did env) of
        Inl err \<Rightarrow> (w, Return (Some err))
      | Inr d \<Rightarrow>
          if \<not> initialized env then (w, Panic)
          else
            (case ResolveENS env d (cfg_InfuraSecretKey env) of
               Inl err \<Rightarrow> (w, Return (Some err))
             | Inr owner \<Rightarrow>
                 (case StartIPFSNode env w (cfg_IPFSPrivKey env) (cfg_IPFSPubKey env) of
                    (w, Panic) \<Rightarrow> (w, Panic)
                  | (w, Return (Some err)) \<Rightarrow> (w, Return (Some err))
                  | (w, Return None) \<Rightarrow>
                      (let profile = \<lparr>ProfileDid = cfg_Did env\<rparr>
                       in case bindnode_Wrap w profile of
                            Panic \<Rightarrow> (w, Panic)
                          | Return (w, dagnode) \<Rightarrow>
                         (case dagjson_Encode env dagnode of
                            Inl err \<Rightarrow> (ipfsShutdown w, Return (Some err))
                          | Inr buf \<Rightarrow>
                              (let cidprefix =
                                     \<lparr>Version = 1, Codec = DagJSON, MhType = SHA3_384, MhLength = 48\<rparr>
                               in case Prefix_Sum env cidprefix buf of
                                    Inl err \<Rightarrow> (ipfsShutdown w, Return (Some err))
                                  | Inr xcid \<Rightarrow>
                                      (case NewBlockWithCid env buf xcid of
                                         (_, Some err) \<Rightarrow> (ipfsShutdown w, Return (Some err))
                                       | (None, None) \<Rightarrow> (w, Panic)
                                       | (Some blk, None) \<Rightarrow>
                                           (case Pinning_Add env w \<lparr>LegacyBlock = blk, LegacyDag = dagnode\<rparr> of
                                              (w, Some err) \<Rightarrow> (ipfsShutdown w, Return (Some err))
                                            | (w, None) \<Rightarrow>
                                                (let (w, _) = PublishIPNSRecordForDAGNode env w (BlockCid blk) []
                                                 in case PutIPFSDAGBlockToW3S env w (cfg_W3SSecretKey env) blk of
                                                      (w, _, Some err) \<Rightarrow> (ipfsShutdown w, Return (Some err))
                                                    | (w, _, None) \<Rightarrow>
                                                        (let (w, err) =
                                                               PublishIPNSRecordForDAGNodeToW3S env w
                                                                 (cfg_W3SSecretKey env) (BlockCid blk)
                                                                 (cfg_IPFSPrivKey env) (cfg_IPFSPubKey env)
                                                         in (ipfsShutdown w, Return err)))))))))))"

section \<open>ipfs: Nostr events as linked nodes\<close>

text \<open>\<open>nostr.Event\<close>; a tag is a list of strings, its key the first and its value the second.\<close>

record Event =
  ID :: string
  PubKey :: string
  CreatedAt :: string
  Kind :: int
  Tags :: "string list list"
  Content :: string
  Sig :: string

definition Tag_Key :: "string list \<Rightarrow> string" where
  "Tag_Key t = (if 0 < length t then t ! 0 else [])"

definition Tag_Value :: "string list \<Rightarrow> string" where
  "Tag_Value t = (if 1 < length t then t ! 1 else [])"

text \<open>
  The map assembler refuses a key it has already been given, and \<open>qp.BuildMap\<close> returns
  that as its error.
\<close>

definition tags_Map :: "string list list \<Rightarrow> error + Node" where
  "tags_Map tags =
     (let kvs = map (\<lambda>t. (Tag_Key t, NString (Tag_Value t))) tags in
      if distinct (map fst kvs) then Inr (NMap kvs)
      else Inl (Failure ''cannot repeat map key''))"

text \<open>
  \<open>PutNostrEventAsIPLDLink\<close>; \<open>CreatedAt\<close> is carried as the string the source
  formats it to. \<open>ipfs.LS.Store\<close> is the link system of the core.
\<close>

definition PutNostrEventAsIPLDLink :: "env \<Rightarrow> Event \<Rightarrow> Link option \<times> error option" where
  "PutNostrEventAsIPLDLink env evt =
     (case tags_Map (Tags evt) of
        Inl err \<Rightarrow>
          (None, Some (Errorf (''could not create IPLD node from Nostr event '' @ ID evt) err))
      | Inr tags \<Rightarrow>
          (let dagnode = NMap [(''id'', NString (ID evt)),
                               (''pubkey'', NString (PubKey evt)),
                               (''created_at'', NString (CreatedAt evt)),
                               (''kind'', NInt (Kind evt)),
                               (''tags'', tags),
                               (''content'', NString (Content evt)),
                               (''sig'', NString (Sig evt))];
               lp = \<lparr>Version = 1, Codec = DagJSON, MhType = SHA3_384, MhLength = 48\<rparr>
           in LS_Store env lp dagnode))"

section \<open>Vocabulary of the properties\<close>

text \<open>The effects an operation added to the history of the world it started in.\<close>

definition new_events :: "world \<Rightarrow> world \<Rightarrow> event list" where
  "new_events w w' = drop (length (trace w)) (trace w')"

text \<open>
  \<open>happens_before P Q tr\<close>: every event of \<open>tr\<close> that satisfies \<open>Q\<close> comes after an
  event that satisfies \<open>P\<close>.
\<close>

fun happens_before :: "(event \<Rightarrow> bool) \<Rightarrow> (event \<Rightarrow> bool) \<Rightarrow> event list \<Rightarrow> bool" where
  "happens_before P Q [] = True"
| "happens_before P Q (e # es) = (if P e then True else (\<not> Q e \<and> happens_before P Q es))"

fun is_pinned :: "event \<Rightarrow> bool" where
  "is_pinned (Pinned c) = True"
| "is_pinned e = False"

fun is_archived :: "event \<Rightarrow> bool" where
  "is_archived (Archived c) = True"
| "is_archived e = False"

fun is_remote_name :: "event \<Rightarrow> bool" where
  "is_remote_name (NamePut name r) = True"
| "is_remote_name e = False"

fun is_name_publication :: "event \<Rightarrow> bool" where
  "is_name_publication (PublishedDHT c) = True"
| "is_name_publication (NamePut name r) = True"
| "is_name_publication e = False"

text \<open>
  \<open>pinned_before_named env ps tr\<close>: with \<open>ps\<close> the CIDs pinned so far, every name
  record published in \<open>tr\<close>, by the local node or at the remote service, points at a
  CID pinned before it; the remote record points at a CID through its path.
\<close>

fun pinned_before_named :: "env \<Rightarrow> Cid list \<Rightarrow> event list \<Rightarrow> bool" where
  "pinned_before_named env ps [] = True"
| "pinned_before_named env ps (Pinned c # es) = pinned_before_named env (c # ps) es"
| "pinned_before_named env ps (PublishedDHT c # es) =
     (c \<in> set ps \<and> pinned_before_named env ps es)"
| "pinned_before_named env ps (NamePut name r # es) =
     ((\<exists>c \<in> set ps. Value r = bytes_of_string (IpfsPath_String env c))
      \<and> pinned_before_named env ps es)"
| "pinned_before_named env ps (e # es) = pinned_before_named env ps es"

text \<open>The CID an effect concerns, when it names one.\<close>

fun event_cid :: "event \<Rightarrow> Cid option" where
  "event_cid (Pinned c) = Some c"
| "event_cid (PublishedDHT c) = Some c"
| "event_cid (Archived c) = Some c"
| "event_cid e = None"

text \<open>The parameters of every CID, as the specification fixes them.\<close>

definition cid_parameters :: Prefix where
  "cid_parameters = \<lparr>Version = 1, Codec = 0x0129, MhType = 0x15, MhLength = 48\<rparr>"

fun cid_prefix :: "Cid \<Rightarrow> Prefix option" where
  "cid_prefix Undef = None"
| "cid_prefix (Cid p h) = Some p"

text \<open>
  A world with nothing stored, no type inferred and no history, and an environment
  in which every collaborator succeeds: the hash of a byte sequence is the sequence
  itself, every CID prints as the same string, every key gives the same name and,
  as for an RSA key, no key can be extracted from a peer identity.
\<close>

definition world_empty :: world where
  "world_empty = \<lparr>blocks = Map.empty, w3s_names = Map.empty, bindnode_types = [], trace = []\<rparr>"

definition env_ok :: env where
  "env_ok =
     \<lparr>cfg_Did = ''did:patr:alice.eth'',
      cfg_InfuraSecretKey = ''infura'',
      cfg_IPFSPrivKey = [1],
      cfg_IPFSPubKey = [2],
      cfg_W3SSecretKey = ''token'',
      initialized = True,
      did_Parse = (\<lambda>s. Inr ''alice.eth''),
      ResolveENS = (\<lambda>n k. Inr ''0xA11CE''),
      NewNode = (\<lambda>sk pk. None),
      NewCoreAPI = None,
      dagjson_Encode = (\<lambda>n. Inr [0x7B, 0x7D]),
      mh_Sum = (\<lambda>b t l. Inr b),
      hash_check = (\<lambda>b c. None),
      Dag_Pinning_Add = (\<lambda>b. None),
      Name_Publish = (\<lambda>c. None),
      W3S_PutCar = (\<lambda>t c. Inr c),
      CidFromBytes = (\<lambda>b. if b = [] then Inl (Failure ''invalid cid'')
                           else Inr (Cid \<lparr>Version = 1, Codec = DagJSON, MhType = SHA3_384, MhLength = 48\<rparr> b)),
      Cid_String = (\<lambda>c. ''bafyprofile''),
      decoder = (\<lambda>c b. if b = [] then Inl (Failure ''unexpected end of input'') else Inr (NMap [])),
      UnmarshalPublicKey = Inr,
      IDFromPublicKey = (\<lambda>pk. Inr ''peer''),
      ExtractPublicKey = (\<lambda>pid. Some ErrNoPublicKey),
      StringOfBase36 = (\<lambda>pid. Inr ''k51alice''),
      UnmarshalPrivateKey = Inr,
      MarshalPublicKey = Inr,
      w3s_NewClient = (\<lambda>t. None),
      GetName_transport = (\<lambda>n. None),
      PutName_transport = (\<lambda>n. None),
      now = 0,
      ipns_Sign = (\<lambda>sk v s e. Inr [0]),
      LS_Store = (\<lambda>p n. (Some [1], None))\<rparr>"

text \<open>
  The same environment with one collaborator failing: the local node cannot announce
  a name record; the remote service cannot be reached for a name lookup.
\<close>

definition env_local_publish_fails :: env where
  "env_local_publish_fails = env_ok\<lparr>Name_Publish := (\<lambda>c. Some (Failure ''routing: not found''))\<rparr>"

definition env_lookup_unreachable :: env where
  "env_lookup_unreachable = env_ok\<lparr>GetName_transport := (\<lambda>n. Some (Failure ''connection refused''))\<rparr>"

text \<open>
  The CID the key \<open>[1]\<close> parses to in these environments and a record with sequence
  number 5.
\<close>

definition cid0 :: Cid where
  "cid0 = Cid \<lparr>Version = 1, Codec = DagJSON, MhType = SHA3_384, MhLength = 48\<rparr> [1]"

definition record5 :: IpnsEntry where
  "record5 = \<lparr>Value = bytes_of_string ''/ipfs/bafyold'', Sequence = 5, Validity = 0, Ttl = 0,
               Signature = [0], pubKey = [2]\<rparr>"


text \<open>A signed Nostr event with one tag.\<close>

definition event0 :: Event where
  "event0 = \<lparr>ID = ''0'', PubKey = ''npub'', CreatedAt = ''2023-06-01 00:00:00 +0000 UTC'',
              Kind = 30078, Tags = [[''d'', ''patr'']], Content = ''hello'', Sig = ''sig''\<rparr>"

section \<open>Properties of LoadUser\<close>

text \<open>
  C9. When the file exists and can be read and its contents do not unmarshal into a
  \<open>User\<close>, \<open>LoadUser\<close> returns the zero-valued \<open>User\<close> together with a nil error: the
  error it returns is the one left by \<open>os.ReadFile\<close>, not the unmarshalling error.
\<close>

theorem LoadUser_invalid_json_returns_nil_error:
  assumes "fs file = Some (Regular u)"
    and "snd (json_Unmarshal u User_zero) = Some e"
  shows "LoadUser json_Unmarshal fs file = (User_zero, None)"
  using assms
  by (auto simp: LoadUser_def os_Stat_def os_ReadFile_def Let_def split: prod.splits)

theorem LoadUser_invalid_json_returns_nil_error_witness:
  "[''user.json'' \<mapsto> Regular []] ''user.json'' = Some (Regular [])
   \<and> snd (json_rejects_empty [] User_zero) = Some (Failure ''unexpected end of JSON input'')
   \<and> LoadUser json_rejects_empty [''user.json'' \<mapsto> Regular []] ''user.json'' = (User_zero, None)"
  using LoadUser_invalid_json_returns_nil_error
    [of "[''user.json'' \<mapsto> Regular []]" "''user.json''" "[]" json_rejects_empty
        "Failure ''unexpected end of JSON input''"]
  by (simp add: json_rejects_empty_def)

section \<open>Effects of the steps of a publish operation\<close>

lemma StartIPFSNode_started:
  "StartIPFSNode env w sk pk = (w1, Return None) \<Longrightarrow> trace w1 = trace w @ [NodeStarted]"
  by (auto simp: StartIPFSNode_def Let_def split: outcome.splits option.splits)

lemma StartIPFSNode_not_started:
  "StartIPFSNode env w sk pk = (w1, r) \<Longrightarrow> r \<noteq> Return None \<Longrightarrow>
     new_events w w1 = [] \<or> new_events w w1 = [NodeStarted]"
  by (auto simp: StartIPFSNode_def new_events_def Let_def split: outcome.splits option.splits)

lemma Pinning_Add_failed:
  "Pinning_Add env w n = (w', Some e) \<Longrightarrow> w' = w"
  by (auto simp: Pinning_Add_def Let_def split: option.splits)

lemma Pinning_Add_done:
  "Pinning_Add env w n = (w', None) \<Longrightarrow> trace w' = trace w @ [Pinned (BlockCid (LegacyBlock n))]"
  by (auto simp: Pinning_Add_def Let_def split: option.splits)

lemma PublishIPNSRecordForDAGNode_trace:
  "PublishIPNSRecordForDAGNode env w c k = (w', err) \<Longrightarrow>
     trace w' = trace w \<or> trace w' = trace w @ [PublishedDHT c]"
  by (auto simp: PublishIPNSRecordForDAGNode_def split: option.splits)

lemma PutIPFSDAGBlockToW3S_failed:
  "PutIPFSDAGBlockToW3S env w t b = (w', pcid, Some e) \<Longrightarrow> w' = w"
  by (auto simp: PutIPFSDAGBlockToW3S_def split: option.splits sum.splits)

lemma PutIPFSDAGBlockToW3S_done:
  "PutIPFSDAGBlockToW3S env w t b = (w', pcid, None) \<Longrightarrow> trace w' = trace w @ [Archived (BlockCid b)]"
  by (auto simp: PutIPFSDAGBlockToW3S_def split: option.splits sum.splits)

lemma ipns_EmbedPublicKey_fields:
  "ipns_EmbedPublicKey env pk nr = Inr nr' \<Longrightarrow> Value nr' = Value nr \<and> Sequence nr' = Sequence nr"
  by (auto simp: ipns_EmbedPublicKey_def split: sum.splits option.splits if_splits)

lemma PublishToW3S_failed:
  "PublishIPNSRecordForDAGNodeToW3S env w t c sk pk = (w', Some e) \<Longrightarrow> w' = w"
  by (auto simp: PublishIPNSRecordForDAGNodeToW3S_def w3s_PutName_def Let_def
       split: sum.splits option.splits prod.splits)

lemma PublishToW3S_done:
  "PublishIPNSRecordForDAGNodeToW3S env w t c sk pk = (w', None) \<Longrightarrow>
     \<exists>name r. trace w' = trace w @ [NamePut name r]
       \<and> Value r = bytes_of_string (IpfsPath_String env c)"
  by (auto simp: PublishIPNSRecordForDAGNodeToW3S_def w3s_PutName_def ipns_Create_def Let_def
       dest!: ipns_EmbedPublicKey_fields
       split: sum.splits option.splits prod.splits)

lemma Prefix_Sum_parameters:
  "Prefix_Sum env cid_parameters buf = Inr c \<Longrightarrow> cid_prefix c = Some cid_parameters"
  by (auto simp: Prefix_Sum_def cid_parameters_def IDENTITY_def Let_def split: sum.splits if_splits)

text \<open>
  Once the node has started and the type of the profile is new to the type system,
  the operation returns, and what it did is one of seven sequences: each begins with
  the start of the node and ends with its shutdown.
\<close>

lemma CreateProfile_started_events:
  assumes dp: "did_Parse env (cfg_Did env) = Inr d"
    and ini: "initialized env"
    and ens: "ResolveENS env d (cfg_InfuraSecretKey env) = Inr owner"
    and st: "StartIPFSNode env w (cfg_IPFSPrivKey env) (cfg_IPFSPubKey env) = (w1, Return None)"
    and fresh: "''Profile'' \<notin> set (bindnode_types w1)"
  shows "(\<exists>err. snd (CreateProfile env w) = Return err) \<and>
     (new_events w (fst (CreateProfile env w)) = [NodeStarted, NodeShutdown] \<or>
      (\<exists>c buf.
         Prefix_Sum env \<lparr>Version = 1, Codec = DagJSON, MhType = SHA3_384, MhLength = 48\<rparr> buf = Inr c \<and>
         (new_events w (fst (CreateProfile env w)) \<in>
            {[NodeStarted, Pinned c, NodeShutdown],
             [NodeStarted, Pinned c, PublishedDHT c, NodeShutdown],
             [NodeStarted, Pinned c, Archived c, NodeShutdown],
             [NodeStarted, Pinned c, PublishedDHT c, Archived c, NodeShutdown]} \<or>
          (\<exists>name r.
             Value r = bytes_of_string (IpfsPath_String env c) \<and>
             new_events w (fst (CreateProfile env w)) \<in>
               {[NodeStarted, Pinned c, Archived c, NamePut name r, NodeShutdown],
                [NodeStarted, Pinned c, PublishedDHT c, Archived c, NamePut name r, NodeShutdown]}))))"
proof -
  let ?node = "NMap [(''Did'', NString (cfg_Did env))]"
  let ?w1 = "w1\<lparr>bindnode_types := bindnode_types w1 @ [''Profile'']\<rparr>"
  let ?pfx = "\<lparr>Version = 1, Codec = DagJSON, MhType = SHA3_384, MhLength = 48\<rparr>"
  have t1: "trace ?w1 = trace w @ [NodeStarted]"
    using StartIPFSNode_started[OF st] by simp
  have wrap: "bindnode_Wrap w1 \<lparr>ProfileDid = cfg_Did env\<rparr> = Return (?w1, ?node)"
    using fresh by (simp add: bindnode_Wrap_def)
  show ?thesis
  proof (cases "dagjson_Encode env ?node")
    case (Inl e)
    then show ?thesis using dp ini ens st t1 wrap
      by (simp add: CreateProfile_def Let_def new_events_def ipfsShutdown_def)
  next
    case enc: (Inr buf)
    show ?thesis
    proof (cases "Prefix_Sum env ?pfx buf")
      case (Inl e)
      then show ?thesis using dp ini ens st t1 wrap enc
        by (simp add: CreateProfile_def Let_def new_events_def ipfsShutdown_def)
    next
      case sum: (Inr c)
      show ?thesis
      proof (cases "hash_check env buf c")
        case (Some e)
        then show ?thesis using dp ini ens st t1 wrap enc sum
          by (simp add: CreateProfile_def Let_def new_events_def ipfsShutdown_def NewBlockWithCid_def)
      next
        case hc: None
        let ?blk = "\<lparr>RawData = buf, BlockCid = c\<rparr>"
        obtain w2 e2 where pin: "Pinning_Add env ?w1 \<lparr>LegacyBlock = ?blk, LegacyDag = ?node\<rparr> = (w2, e2)"
          by (cases "Pinning_Add env ?w1 \<lparr>LegacyBlock = ?blk, LegacyDag = ?node\<rparr>") auto
        show ?thesis
        proof (cases e2)
          case (Some e)
          then have "w2 = ?w1" using Pinning_Add_failed pin by blast
          then show ?thesis using Some dp ini ens st t1 wrap enc sum hc pin
            by (simp add: CreateProfile_def Let_def new_events_def ipfsShutdown_def NewBlockWithCid_def)
        next
          case pinok: None
          obtain w3 e3 where loc: "PublishIPNSRecordForDAGNode env w2 c [] = (w3, e3)"
            by (cases "PublishIPNSRecordForDAGNode env w2 c []") auto
          obtain w4 pc e4 where arc: "PutIPFSDAGBlockToW3S env w3 (cfg_W3SSecretKey env) ?blk = (w4, pc, e4)"
            by (cases "PutIPFSDAGBlockToW3S env w3 (cfg_W3SSecretKey env) ?blk") auto
          obtain w5 e5 where nam: "PublishIPNSRecordForDAGNodeToW3S env w4 (cfg_W3SSecretKey env) c
                  (cfg_IPFSPrivKey env) (cfg_IPFSPubKey env) = (w5, e5)"
            by (cases "PublishIPNSRecordForDAGNodeToW3S env w4 (cfg_W3SSecretKey env) c
                  (cfg_IPFSPrivKey env) (cfg_IPFSPubKey env)") auto
          have cp: "CreateProfile env w =
             (case e4 of Some err \<Rightarrow> (ipfsShutdown w4, Return (Some err))
              | None \<Rightarrow> (ipfsShutdown w5, Return e5))"
            using dp ini ens st wrap enc sum hc pin pinok loc arc nam
            by (simp add: CreateProfile_def Let_def NewBlockWithCid_def split: option.split)
          have tr2: "trace w2 = trace w @ [NodeStarted, Pinned c]"
            using Pinning_Add_done[OF pin[unfolded pinok]] t1 by simp
          have tr3: "trace w3 = trace w2 \<or> trace w3 = trace w2 @ [PublishedDHT c]"
            using PublishIPNSRecordForDAGNode_trace[OF loc] .
          show ?thesis
          proof (cases e4)
            case (Some e)
            then have "w4 = w3" using PutIPFSDAGBlockToW3S_failed arc by blast
            then show ?thesis using cp Some tr2 tr3 sum
              by (auto simp: new_events_def ipfsShutdown_def)
          next
            case arcok: None
            then have tr4: "trace w4 = trace w3 @ [Archived c]"
              using PutIPFSDAGBlockToW3S_done[OF arc[unfolded arcok]] by simp
            show ?thesis
            proof (cases e5)
              case (Some e)
              then have "w5 = w4" using PublishToW3S_failed nam by blast
              then show ?thesis using cp arcok tr2 tr3 tr4 sum
                by (auto simp: new_events_def ipfsShutdown_def)
            next
              case None
              then obtain name r where tr5: "trace w5 = trace w4 @ [NamePut name r]"
                and val: "Value r = bytes_of_string (IpfsPath_String env c)"
                using PublishToW3S_done nam by blast
              show ?thesis using cp arcok tr2 tr3 tr4 tr5 val sum
                by (auto simp: new_events_def ipfsShutdown_def)
            qed
          qed
        qed
      qed
    qed
  qed
qed

text \<open>
  Otherwise the operation ends before any block is derived, and closes nothing: it
  ends before the node is up, or with the node up when \<open>StartIPFSNode\<close> fails after
  it has made the node or when \<open>bindnode.Wrap\<close> panics.
\<close>

lemma CreateProfile_not_started_events:
  assumes "\<not> (\<exists>d owner w1. did_Parse env (cfg_Did env) = Inr d \<and> initialized env
             \<and> ResolveENS env d (cfg_InfuraSecretKey env) = Inr owner
             \<and> StartIPFSNode env w (cfg_IPFSPrivKey env) (cfg_IPFSPubKey env) = (w1, Return None)
             \<and> ''Profile'' \<notin> set (bindnode_types w1))"
  shows "new_events w (fst (CreateProfile env w)) = []
         \<or> new_events w (fst (CreateProfile env w)) = [NodeStarted]"
proof (cases "did_Parse env (cfg_Did env)")
  case (Inl e)
  then show ?thesis by (simp add: CreateProfile_def new_events_def)
next
  case dp: (Inr d)
  show ?thesis
  proof (cases "initialized env")
    case False
    then show ?thesis using dp by (simp add: CreateProfile_def new_events_def)
  next
    case ini: True
    show ?thesis
    proof (cases "ResolveENS env d (cfg_InfuraSecretKey env)")
      case (Inl e)
      then show ?thesis using dp ini by (simp add: CreateProfile_def new_events_def)
    next
      case ens: (Inr owner)
      obtain w1 r where st: "StartIPFSNode env w (cfg_IPFSPrivKey env) (cfg_IPFSPubKey env) = (w1, r)"
        by (cases "StartIPFSNode env w (cfg_IPFSPrivKey env) (cfg_IPFSPubKey env)") auto
      show ?thesis
      proof (cases "r = Return None")
        case True
        with assms dp ini ens st have "''Profile'' \<in> set (bindnode_types w1)" by auto
        then have "CreateProfile env w = (w1, Panic)"
          using dp ini ens st True by (simp add: CreateProfile_def bindnode_Wrap_def)
        then show ?thesis using StartIPFSNode_started[OF st[unfolded True]]
          by (simp add: new_events_def)
      next
        case ne: False
        then have "CreateProfile env w = (w1, r)"
          using dp ini ens st by (simp add: CreateProfile_def split: outcome.split option.split)
        then show ?thesis using StartIPFSNode_not_started[OF st ne] by simp
      qed
    qed
  qed
qed

section \<open>Properties of the link system and the local store adapter\<close>

text \<open>
  C1. The claim: the writer of the open-write path buffers what is written to it,
  commit routes the buffered bytes to the backends, and open-read on the link gives
  the bytes back. On the code: a writer is opened for the link \<open>[1]\<close> over an empty
  store and the two bytes of \<open>{}\<close> are written to it. \<open>Write\<close> reads from the
  buffer instead of writing to it: it reports 0 bytes and \<open>io.EOF\<close>, and the buffer
  stays empty. \<open>BlockWriteCommit\<close> returns nil and leaves the store as it was, and
  \<open>OpenRead\<close> on the link finds no block.
\<close>

theorem link_writer_round_trip_fails:
  "OpenWrite env_ok world_empty [1] = (Some \<lparr>w_cid = cid0, w_data = []\<rparr>, None)
   \<and> Write \<lparr>w_cid = cid0, w_data = []\<rparr> [0x7B, 0x7D]
       = (\<lparr>w_cid = cid0, w_data = []\<rparr>, [0x7B, 0x7D], 0, Some EOF)
   \<and> Buffer_Bytes (w_data (fst (Write \<lparr>w_cid = cid0, w_data = []\<rparr> [0x7B, 0x7D]))) = []
   \<and> BlockWriteCommit world_empty \<lparr>w_cid = cid0, w_data = []\<rparr> [1] = (world_empty, None)
   \<and> OpenRead env_ok world_empty [1] = Return (None, Some (Failure ''block not found''))"
  by (simp add: OpenWrite_def Write_def Buffer_Read_def Buffer_Bytes_def BlockWriteCommit_def
        OpenRead_def Block_Get_def env_ok_def world_empty_def cid0_def)

text \<open>
  C3. The claim: \<open>Has\<close> returns true exactly when a block with the CID is in the
  local store. On the code: for a key whose block is stored, \<open>Has\<close> returns false
  with a nil error; for the same key over an empty store it returns true, with the
  error of \<open>Stat\<close>.
\<close>

theorem Has_answers_inverted:
  "Has env_ok (world_empty\<lparr>blocks := [cid0 \<mapsto> Reader [0x7B, 0x7D] None]\<rparr>) [1] = (False, None)
   \<and> Has env_ok world_empty [1] = (True, Some (Failure ''block not found''))"
  by (simp add: Has_def Block_Stat_def env_ok_def world_empty_def cid0_def)

text \<open>
  C10. \<open>Get\<close> and \<open>OpenRead\<close> on a key whose block is stored, whatever error ended
  the stream of its bytes: when the bytes do not decode as a node both panic, on the
  nil node, and the decode error is not returned; when the bytes decode (and the
  block is accepted) both return the bytes with a nil error, so the error of the
  stream is dropped.
\<close>

theorem Get_OpenRead_nil_dereference:
  assumes "CidFromBytes env key = Inr k"
    and "blocks store k = Some (Reader buf rerr)"
  shows "(\<forall>e. decoder env k buf = Inl e \<longrightarrow>
            Get env store key = Panic \<and> OpenRead env store key = Panic)
       \<and> (\<forall>nd. decoder env k buf = Inr nd \<and> hash_check env buf k = None \<longrightarrow>
            Get env store key = Return (buf, None)
            \<and> OpenRead env store key = Return (Some (Reader buf None), None))"
  using assms
  by (auto simp: Get_def OpenRead_def Block_Get_def io_ReadAll_def NewBlockWithCid_def DecodeNode_def
        split: option.split)

theorem Get_OpenRead_nil_dereference_witness:
  "CidFromBytes env_ok [1] = Inr cid0
   \<and> decoder env_ok cid0 [] = Inl (Failure ''unexpected end of input'')
   \<and> Get env_ok (world_empty\<lparr>blocks := [cid0 \<mapsto> Reader [] (Some (Failure ''unexpected EOF''))]\<rparr>) [1] = Panic
   \<and> OpenRead env_ok (world_empty\<lparr>blocks := [cid0 \<mapsto> Reader [] (Some (Failure ''unexpected EOF''))]\<rparr>) [1] = Panic
   \<and> decoder env_ok cid0 [0x7B] = Inr (NMap [])
   \<and> hash_check env_ok [0x7B] cid0 = None
   \<and> Get env_ok (world_empty\<lparr>blocks := [cid0 \<mapsto> Reader [0x7B] (Some (Failure ''unexpected EOF''))]\<rparr>) [1]
       = Return ([0x7B], None)"
  using Get_OpenRead_nil_dereference
          [of env_ok "[1]" cid0
              "world_empty\<lparr>blocks := [cid0 \<mapsto> Reader [] (Some (Failure ''unexpected EOF''))]\<rparr>"
              "[]" "Some (Failure ''unexpected EOF'')"]
        Get_OpenRead_nil_dereference
          [of env_ok "[1]" cid0
              "world_empty\<lparr>blocks := [cid0 \<mapsto> Reader [0x7B] (Some (Failure ''unexpected EOF''))]\<rparr>"
              "[0x7B]" "Some (Failure ''unexpected EOF'')"]
  by (simp add: env_ok_def world_empty_def cid0_def)

section \<open>Properties of name-record publication\<close>

text \<open>
  C2. The claim: the sequence number of the new record is that of the latest record
  of the name plus 1, and 1 when there is none, so successive publications under a
  name have increasing sequence numbers. On the code: the key \<open>[2]\<close> has the name
  \<open>k51alice\<close>, under which the remote service holds a record with sequence number 5.
  The publication succeeds and the record it stores under the name has sequence
  number 1: the lookup was made under the path of the CID, where nothing is stored.
  Two publications in a row, from a service holding nothing, both store sequence
  number 1.
\<close>

theorem publish_restarts_sequence_under_same_name:
  "GetIPNSPublicKeyName env_ok [2] = Inr ''k51alice''
   \<and> snd (PublishIPNSRecordForDAGNodeToW3S env_ok
             (world_empty\<lparr>w3s_names := [''k51alice'' \<mapsto> record5]\<rparr>) ''token'' cid0 [1] [2]) = None
   \<and> map_option Sequence
        (w3s_names (fst (PublishIPNSRecordForDAGNodeToW3S env_ok
                           (world_empty\<lparr>w3s_names := [''k51alice'' \<mapsto> record5]\<rparr>) ''token'' cid0 [1] [2]))
           ''k51alice'') = Some 1
   \<and> map_option Sequence
        (w3s_names (fst (PublishIPNSRecordForDAGNodeToW3S env_ok
                           (fst (PublishIPNSRecordForDAGNodeToW3S env_ok world_empty ''token'' cid0 [1] [2]))
                           ''token'' cid0 [1] [2]))
           ''k51alice'') = Some 1"
  by (simp add: PublishIPNSRecordForDAGNodeToW3S_def GetIPNSPublicKeyName_def IpfsPath_String_def
        w3s_GetName_def w3s_PutName_def ipns_Create_def ipns_EmbedPublicKey_def Let_def
        env_ok_def world_empty_def cid0_def record5_def)

text \<open>
  C6, as stated, fails: the remote service cannot be reached for the lookup, the
  lookup returns that transport error, and the publication goes on, stores a record
  with sequence number 1 and returns a nil error.
\<close>

theorem lookup_transport_error_does_not_abort:
  "w3s_GetName env_lookup_unreachable world_empty (IpfsPath_String env_lookup_unreachable cid0)
      = (None, Some (Failure ''connection refused''))
   \<and> snd (PublishIPNSRecordForDAGNodeToW3S env_lookup_unreachable world_empty ''token'' cid0 [1] [2]) = None
   \<and> map_option Sequence
        (w3s_names (fst (PublishIPNSRecordForDAGNodeToW3S env_lookup_unreachable world_empty
                           ''token'' cid0 [1] [2]))
           ''k51alice'') = Some 1"
  by (simp add: PublishIPNSRecordForDAGNodeToW3S_def GetIPNSPublicKeyName_def IpfsPath_String_def
        w3s_GetName_def w3s_PutName_def ipns_Create_def ipns_EmbedPublicKey_def Let_def
        env_lookup_unreachable_def env_ok_def world_empty_def cid0_def)

text \<open>
  C6, amended. When the lookup before the publication fails, with a transport error
  or any other, the publication does not abort on it: it goes on with sequence
  number 1, and when the steps after the lookup succeed it stores the record with
  sequence number 1 under the name and returns a nil error.
\<close>

theorem lookup_error_restarts_sequence:
  assumes "GetIPNSPublicKeyName env pubkey = Inr name"
    and "w3s_NewClient env authToken = None"
    and "UnmarshalPrivateKey env privkey = Inr sk"
    and "snd (w3s_GetName env w (IpfsPath_String env c)) = Some e"
    and "ipns_Sign env sk (bytes_of_string (IpfsPath_String env c)) 1 (now env + Hour * 48) = Inr sig"
    and "UnmarshalPublicKey env pubkey = Inr pk"
    and "ipns_EmbedPublicKey env pk
           \<lparr>Value = bytes_of_string (IpfsPath_String env c), Sequence = 1,
              Validity = now env + Hour * 48, Ttl = 0, Signature = sig, pubKey = []\<rparr> = Inr nr"
    and "PutName_transport env name = None"
  shows "PublishIPNSRecordForDAGNodeToW3S env w authToken c privkey pubkey
           = (w\<lparr>w3s_names := (w3s_names w)(name \<mapsto> nr), trace := trace w @ [NamePut name nr]\<rparr>, None)
         \<and> Sequence nr = 1"
proof -
  obtain r where "w3s_GetName env w (IpfsPath_String env c) = (r, Some e)"
    using assms(4) by (cases "w3s_GetName env w (IpfsPath_String env c)") auto
  then have "PublishIPNSRecordForDAGNodeToW3S env w authToken c privkey pubkey
           = (w\<lparr>w3s_names := (w3s_names w)(name \<mapsto> nr), trace := trace w @ [NamePut name nr]\<rparr>, None)"
    using assms
    by (simp add: PublishIPNSRecordForDAGNodeToW3S_def w3s_PutName_def ipns_Create_def
          Let_def split: option.split)
  moreover have "Sequence nr = 1"
    using ipns_EmbedPublicKey_fields[OF assms(7)] by simp
  ultimately show ?thesis by simp
qed

theorem lookup_error_restarts_sequence_witness:
  "GetIPNSPublicKeyName env_lookup_unreachable [2] = Inr ''k51alice''
   \<and> snd (w3s_GetName env_lookup_unreachable world_empty (IpfsPath_String env_lookup_unreachable cid0))
       = Some (Failure ''connection refused'')
   \<and> PublishIPNSRecordForDAGNodeToW3S env_lookup_unreachable world_empty ''token'' cid0 [1] [2]
       = (world_empty
            \<lparr>w3s_names := [''k51alice'' \<mapsto>
                 \<lparr>Value = bytes_of_string ''/ipfs/bafyprofile'', Sequence = 1, Validity = Hour * 48,
                    Ttl = 0, Signature = [0], pubKey = [2]\<rparr>],
              trace := [NamePut ''k51alice''
                 \<lparr>Value = bytes_of_string ''/ipfs/bafyprofile'', Sequence = 1, Validity = Hour * 48,
                    Ttl = 0, Signature = [0], pubKey = [2]\<rparr>]\<rparr>, None)"
  using lookup_error_restarts_sequence
          [of env_lookup_unreachable "[2]" "''k51alice''" "''token''" "[1]" "[1]" world_empty cid0
              "Failure ''connection refused''" "[0]" "[2]"
              "\<lparr>Value = bytes_of_string ''/ipfs/bafyprofile'', Sequence = 1, Validity = Hour * 48,
                 Ttl = 0, Signature = [0], pubKey = [2]\<rparr>"]
  by (simp add: GetIPNSPublicKeyName_def IpfsPath_String_def w3s_GetName_def ipns_EmbedPublicKey_def
        Let_def env_lookup_unreachable_def env_ok_def world_empty_def cid0_def)

section \<open>Properties of the publish operation\<close>

text \<open>
  C4, as stated, fails: in the operation in which every step succeeds, the name
  record announced by the local node is published before the archive is uploaded, so
  remote archival does not come before every name-record publication.
\<close>

theorem CreateProfile_name_published_before_archival:
  "\<not> happens_before is_archived is_name_publication
        (new_events world_empty (fst (CreateProfile env_ok world_empty)))"
  by (simp add: CreateProfile_def StartIPFSNode_def GetIPFSNodeIdentity_def ipfsShutdown_def
        bindnode_Wrap_def Prefix_Sum_def NewBlockWithCid_def Pinning_Add_def
        PublishIPNSRecordForDAGNode_def PutIPFSDAGBlockToW3S_def PublishIPNSRecordForDAGNodeToW3S_def
        GetIPNSPublicKeyName_def IpfsPath_String_def w3s_GetName_def w3s_PutName_def ipns_Create_def
        ipns_EmbedPublicKey_def Let_def new_events_def env_ok_def world_empty_def
        IDENTITY_def SHA3_384_def)

text \<open>
  C4, amended. Within every publish operation, the block is pinned locally before it
  is archived remotely, it is archived remotely before the name record is stored at
  the remote service, and it is pinned locally before any name record is published,
  by the local node or at the remote service; so every name record published points
  at a CID that has been pinned locally before.
\<close>

theorem CreateProfile_ordering:
  "happens_before is_pinned is_archived (new_events w (fst (CreateProfile env w)))
   \<and> happens_before is_archived is_remote_name (new_events w (fst (CreateProfile env w)))
   \<and> happens_before is_pinned is_name_publication (new_events w (fst (CreateProfile env w)))
   \<and> pinned_before_named env [] (new_events w (fst (CreateProfile env w)))"
proof (cases "\<exists>d owner w1. did_Parse env (cfg_Did env) = Inr d \<and> initialized env
             \<and> ResolveENS env d (cfg_InfuraSecretKey env) = Inr owner
             \<and> StartIPFSNode env w (cfg_IPFSPrivKey env) (cfg_IPFSPubKey env) = (w1, Return None)
             \<and> ''Profile'' \<notin> set (bindnode_types w1)")
  case True
  then obtain d owner w1 where "did_Parse env (cfg_Did env) = Inr d" "initialized env"
     "ResolveENS env d (cfg_InfuraSecretKey env) = Inr owner"
     "StartIPFSNode env w (cfg_IPFSPrivKey env) (cfg_IPFSPubKey env) = (w1, Return None)"
     "''Profile'' \<notin> set (bindnode_types w1)" by blast
  from CreateProfile_started_events[OF this] show ?thesis by auto
next
  case False
  from CreateProfile_not_started_events[OF this] show ?thesis by auto
qed

theorem CreateProfile_ordering_witness:
  "new_events world_empty (fst (CreateProfile env_ok world_empty))
     = [NodeStarted,
        Pinned (Cid cid_parameters [0x7B, 0x7D]),
        PublishedDHT (Cid cid_parameters [0x7B, 0x7D]),
        Archived (Cid cid_parameters [0x7B, 0x7D]),
        NamePut ''k51alice''
          \<lparr>Value = bytes_of_string ''/ipfs/bafyprofile'', Sequence = 1, Validity = Hour * 48,
             Ttl = 0, Signature = [0], pubKey = [2]\<rparr>,
        NodeShutdown]
   \<and> happens_before is_pinned is_archived (new_events world_empty (fst (CreateProfile env_ok world_empty)))
   \<and> happens_before is_archived is_remote_name (new_events world_empty (fst (CreateProfile env_ok world_empty)))
   \<and> happens_before is_pinned is_name_publication (new_events world_empty (fst (CreateProfile env_ok world_empty)))
   \<and> pinned_before_named env_ok [] (new_events world_empty (fst (CreateProfile env_ok world_empty)))"
  using CreateProfile_ordering [of world_empty env_ok]
  by (simp add: CreateProfile_def StartIPFSNode_def GetIPFSNodeIdentity_def ipfsShutdown_def
        bindnode_Wrap_def Prefix_Sum_def NewBlockWithCid_def Pinning_Add_def
        PublishIPNSRecordForDAGNode_def PutIPFSDAGBlockToW3S_def PublishIPNSRecordForDAGNodeToW3S_def
        GetIPNSPublicKeyName_def IpfsPath_String_def w3s_GetName_def w3s_PutName_def ipns_Create_def
        ipns_EmbedPublicKey_def Let_def new_events_def env_ok_def world_empty_def
        cid_parameters_def DagJSON_def SHA3_384_def IDENTITY_def)

text \<open>
  C5. The claim: no step's error is swallowed; the error of any step, the local
  name-record publication included, aborts the operation and is returned. On the
  code: the local node cannot announce the record, \<open>PublishIPNSRecordForDAGNode\<close>
  returns the error, and \<open>CreateProfile\<close> goes on to archive the block and to store
  the name record at the remote service, and returns a nil error.
\<close>

theorem CreateProfile_drops_local_publish_error:
  "snd (PublishIPNSRecordForDAGNode env_local_publish_fails world_empty cid0 [])
     = Some (Errorf ''error publishing IPNS record using IPFS node key '' (Failure ''routing: not found''))
   \<and> CreateProfile env_local_publish_fails world_empty
     = (\<lparr>blocks = [Cid cid_parameters [0x7B, 0x7D] \<mapsto> Reader [0x7B, 0x7D] None],
         w3s_names = [''k51alice'' \<mapsto>
            \<lparr>Value = bytes_of_string ''/ipfs/bafyprofile'', Sequence = 1, Validity = Hour * 48,
               Ttl = 0, Signature = [0], pubKey = [2]\<rparr>],
         bindnode_types = [''Profile''],
         trace = [NodeStarted,
                  Pinned (Cid cid_parameters [0x7B, 0x7D]),
                  Archived (Cid cid_parameters [0x7B, 0x7D]),
                  NamePut ''k51alice''
                    \<lparr>Value = bytes_of_string ''/ipfs/bafyprofile'', Sequence = 1, Validity = Hour * 48,
                       Ttl = 0, Signature = [0], pubKey = [2]\<rparr>,
                  NodeShutdown]\<rparr>,
        Return None)"
  by (simp add: CreateProfile_def StartIPFSNode_def GetIPFSNodeIdentity_def ipfsShutdown_def
        bindnode_Wrap_def Prefix_Sum_def NewBlockWithCid_def Pinning_Add_def
        PublishIPNSRecordForDAGNode_def PutIPFSDAGBlockToW3S_def PublishIPNSRecordForDAGNodeToW3S_def
        GetIPNSPublicKeyName_def IpfsPath_String_def w3s_GetName_def w3s_PutName_def ipns_Create_def
        ipns_EmbedPublicKey_def Let_def env_local_publish_fails_def env_ok_def world_empty_def
        cid0_def cid_parameters_def DagJSON_def SHA3_384_def IDENTITY_def)




text \<open>
  C8. Whatever the configuration and the collaborators, every CID a publish operation
  pins, announces or archives is computed by \<open>Prefix.Sum\<close> under the parameters of
  the specification and carries them, every link \<open>PutNostrEventAsIPLDLink\<close> returns
  was stored by the link system under the same parameters, and the parameters are
  version 1, the codec DAG-JSON, the hash function SHA3-384 and a digest of 48 bytes.
\<close>

theorem cid_parameters_fixed:
  "(\<forall>e \<in> set (new_events w (fst (CreateProfile env w))). \<forall>c. event_cid e = Some c \<longrightarrow>
       cid_prefix c = Some cid_parameters \<and> (\<exists>buf. Prefix_Sum env cid_parameters buf = Inr c))
   \<and> (fst (PutNostrEventAsIPLDLink env evt) \<noteq> None \<longrightarrow>
        (\<exists>n. PutNostrEventAsIPLDLink env evt = LS_Store env cid_parameters n))
   \<and> Version cid_parameters = 1 \<and> Codec cid_parameters = DagJSON
   \<and> MhType cid_parameters = SHA3_384 \<and> MhLength cid_parameters = 48"
proof -
  have eq: "\<lparr>Version = 1, Codec = DagJSON, MhType = SHA3_384, MhLength = 48\<rparr> = cid_parameters"
    by (simp add: cid_parameters_def DagJSON_def SHA3_384_def)
  have a: "\<forall>e \<in> set (new_events w (fst (CreateProfile env w))). \<forall>c. event_cid e = Some c \<longrightarrow>
       cid_prefix c = Some cid_parameters \<and> (\<exists>buf. Prefix_Sum env cid_parameters buf = Inr c)"
  proof (cases "\<exists>d owner w1. did_Parse env (cfg_Did env) = Inr d \<and> initialized env
             \<and> ResolveENS env d (cfg_InfuraSecretKey env) = Inr owner
             \<and> StartIPFSNode env w (cfg_IPFSPrivKey env) (cfg_IPFSPubKey env) = (w1, Return None)
             \<and> ''Profile'' \<notin> set (bindnode_types w1)")
    case True
    then obtain d owner w1 where "did_Parse env (cfg_Did env) = Inr d" "initialized env"
       "ResolveENS env d (cfg_InfuraSecretKey env) = Inr owner"
       "StartIPFSNode env w (cfg_IPFSPrivKey env) (cfg_IPFSPubKey env) = (w1, Return None)"
       "''Profile'' \<notin> set (bindnode_types w1)" by blast
    note sh = CreateProfile_started_events[OF this, unfolded eq]
    show ?thesis
      apply (insert sh)
      apply (elim conjE disjE exE; (frule Prefix_Sum_parameters)?)
      apply fastforce+
      done
  next
    case False
    from CreateProfile_not_started_events[OF this] show ?thesis by auto
  qed
  have b: "fst (PutNostrEventAsIPLDLink env evt) \<noteq> None \<longrightarrow>
        (\<exists>n. PutNostrEventAsIPLDLink env evt = LS_Store env cid_parameters n)"
    unfolding PutNostrEventAsIPLDLink_def Let_def eq by (auto split: sum.splits)
  show ?thesis using a b by (simp add: cid_parameters_def DagJSON_def SHA3_384_def)
qed

theorem cid_parameters_fixed_witness:
  "Pinned (Cid cid_parameters [0x7B, 0x7D]) \<in> set (new_events world_empty (fst (CreateProfile env_ok world_empty)))
   \<and> event_cid (Pinned (Cid cid_parameters [0x7B, 0x7D])) = Some (Cid cid_parameters [0x7B, 0x7D])
   \<and> cid_prefix (Cid cid_parameters [0x7B, 0x7D]) = Some cid_parameters
   \<and> Prefix_Sum env_ok cid_parameters [0x7B, 0x7D] = Inr (Cid cid_parameters [0x7B, 0x7D])
   \<and> fst (PutNostrEventAsIPLDLink env_ok event0) \<noteq> None
   \<and> (\<exists>n. PutNostrEventAsIPLDLink env_ok event0 = LS_Store env_ok cid_parameters n)
   \<and> cid_parameters = \<lparr>Version = 1, Codec = 0x0129, MhType = 0x15, MhLength = 48\<rparr>"
  using cid_parameters_fixed [of world_empty env_ok event0]
  by (simp add: CreateProfile_def StartIPFSNode_def GetIPFSNodeIdentity_def ipfsShutdown_def
        bindnode_Wrap_def Prefix_Sum_def NewBlockWithCid_def Pinning_Add_def
        PublishIPNSRecordForDAGNode_def PutIPFSDAGBlockToW3S_def PublishIPNSRecordForDAGNodeToW3S_def
        GetIPNSPublicKeyName_def IpfsPath_String_def w3s_GetName_def w3s_PutName_def ipns_Create_def
        ipns_EmbedPublicKey_def Let_def new_events_def env_ok_def world_empty_def
        PutNostrEventAsIPLDLink_def tags_Map_def Tag_Key_def Tag_Value_def event0_def
        cid_parameters_def DagJSON_def SHA3_384_def IDENTITY_def)

end
